theory Spec2Isabelle
  imports Main "HOL-Library.Word"
begin

section \<open>The unescaper: \<open>TextConverter::UnescapeString\<close>\<close>

text \<open>
  A \<open>char\<close> is one byte. The converter is constructed with one escape byte
  (\<open>escape_char_\<close>), which every operation below takes as its first argument.
\<close>

type_synonym byte = "8 word"

text \<open>
  The loop \<open>while (src < end)\<close> of \<open>UnescapeString(const char* src, char* dest, int* len)\<close>.
  The second argument is the bytes from the cursor \<open>src\<close> up to \<open>end\<close>; \<open>dest\<close> is the
  storage the caller supplied and \<open>dest_ptr\<close> the offset of the write cursor in it. The C++
  code does not check the write \<open>*dest_ptr++ = *src++\<close>; a write past the end of \<open>dest\<close>
  is undefined behaviour there and \<open>None\<close> here. The loop returns its final state:
  the destination, the write cursor and the flag.
\<close>

fun unescape_loop ::
  "byte \<Rightarrow> byte list \<Rightarrow> bool \<Rightarrow> byte list \<Rightarrow> nat \<Rightarrow> (byte list \<times> nat \<times> bool) option" where
  "unescape_loop escape_char [] escape_next_char dest dest_ptr =
     Some (dest, dest_ptr, escape_next_char)"
| "unescape_loop escape_char (c # src) escape_next_char dest dest_ptr =
     (let escape_next_char' = (if c = escape_char then \<not> escape_next_char else False)
      in if escape_next_char' then
           unescape_loop escape_char src escape_next_char' dest dest_ptr
         else if dest_ptr < length dest then
           unescape_loop escape_char src escape_next_char' (dest[dest_ptr := c]) (dest_ptr + 1)
         else None)"

text \<open>
  \<open>UnescapeString escape_char src dest\<close>: \<open>src\<close> is the byte range \<open>[src, src + *len)\<close>, so
  the value of \<open>*len\<close> on entry is \<open>length src\<close>. The result is the destination storage
  after the call and the value stored to \<open>*len\<close>, \<open>dest_ptr - dest_start\<close>. That count
  never exceeds the \<open>int\<close> that came in (\<open>unescape_loop_bound\<close> below), so the
  conversion to \<open>int\<close> is exact.
\<close>

definition UnescapeString :: "byte \<Rightarrow> byte list \<Rightarrow> byte list \<Rightarrow> (byte list \<times> int) option" where
  "UnescapeString escape_char src dest =
     (case unescape_loop escape_char src False dest 0 of
        None \<Rightarrow> None
      | Some (dest', dest_ptr, escape_next_char) \<Rightarrow> Some (dest', int dest_ptr))"

text \<open>
  The bytes a call hands back: the first \<open>newLen\<close> bytes of the destination. This is
  the string the caller \<open>UnescapeString(StringValue* value, MemPool* pool)\<close> leaves in
  \<open>value\<close>, whose \<open>ptr\<close> becomes the destination and whose \<open>len\<close> the new length.
\<close>

definition unescaped :: "byte list \<times> int \<Rightarrow> byte list" where
  "unescaped r = take (nat (snd r)) (fst r)"

section \<open>The slot-writer generator: \<open>TextConverter::CodegenWriteSlot\<close>\<close>

subsection \<open>Descriptors and collaborators\<close>

text \<open>
  Modelled from the spec: the enumeration \<open>PrimitiveType\<close> is declared in a header that is not
  among the sources. The spec lists the logical types of a slot as boolean, 8/16/32/64-bit
  integer, 32/64-bit float, variable-length string, or other; the first eight carry the names
  \<open>CodegenWriteSlot\<close> uses for them, and \<open>TYPE_TIMESTAMP\<close> stands for the types outside the
  supported set.
\<close>

datatype PrimitiveType =
  TYPE_BOOLEAN | TYPE_TINYINT | TYPE_SMALLINT | TYPE_INT | TYPE_BIGINT
| TYPE_FLOAT | TYPE_DOUBLE | TYPE_STRING | TYPE_TIMESTAMP

text \<open>The parsers \<open>CodegenWriteSlot\<close> selects from, \<open>IRFunction::STRING_TO_*\<close>.\<close>

datatype IRFunction =
  STRING_TO_BOOL | STRING_TO_INT8 | STRING_TO_INT16 | STRING_TO_INT32 | STRING_TO_INT64
| STRING_TO_FLOAT | STRING_TO_DOUBLE

text \<open>
  Modelled from the spec: the descriptors and the code generator are external collaborators,
  taken here with exactly the members \<open>CodegenWriteSlot\<close> calls. \<open>'st\<close> is the structural
  description of the tuple (\<open>StructType*\<close>). \<open>GenerateLlvmStruct\<close> and \<open>CodegenUpdateNull\<close>
  may fail (\<open>NULL\<close>, here \<open>None\<close>); \<open>CodegenUpdateNull\<close> hands back the null-marking
  function, referred to by its name.
\<close>

record 'st SlotDescriptor =
  type :: PrimitiveType
  field_idx :: nat
  CodegenUpdateNull :: "'st \<Rightarrow> bool \<Rightarrow> string option"

record 'st TupleDescriptor =
  GenerateLlvmStruct :: "'st option"

subsection \<open>The generated code\<close>

text \<open>
  Modelled from the spec: the compilation backend is an external collaborator. What
  \<open>CodegenWriteSlot\<close> builds with it is kept as data: a function is a list of named basic
  blocks, a block a list of instructions, one per \<open>builder.Create*\<close> call. A \<open>Value*\<close> is an
  argument of the function (\<open>args[i]\<close>), a constant, or the result of an instruction, named
  after the C++ variable that holds it; the printable names handed to the builder
  (\<open>"slot"\<close>, \<open>"failed"\<close>, ...) do not affect execution and are left out.
\<close>

datatype ptr = DataPtr "64 word" | TuplePtr "nat list" | StackPtr string

datatype val =
  I1 bool | I8 "8 word" | I16 "16 word" | I32 "32 word" | I64 "64 word"
| F32 "32 word" | F64 "64 word" | Ptr ptr

datatype operand = Arg nat | Const val | Reg string

datatype callee = Fn string | IrFn IRFunction

datatype instr =
  Alloca string
| ICmpEQ string operand operand
| StructGEP string operand nat
| Store operand operand
| Load string operand
| Call "string option" callee "operand list"
| CondBr operand string string
| Ret operand

datatype 'st llvm_type = GetType PrimitiveType | ptr_type | PointerType_get 'st

record 'st Function =
  fn_name :: string
  ret_type :: "'st llvm_type"
  fn_args :: "(string \<times> 'st llvm_type) list"
  blocks :: "(string \<times> instr list) list"

text \<open>
  The builder: the function under construction and the block new instructions are appended
  to. \<open>GeneratePrototype\<close> creates the function with its entry block and puts the builder
  there; \<open>CreateIfElseBlocks\<close> appends two empty blocks to the function;
  \<open>CreateEntryBlockAlloca\<close> puts an \<open>alloca\<close> at the head of the entry block; \<open>Insert\<close> is
  what every \<open>builder.Create*\<close> does with its instruction.
\<close>

record 'st LlvmBuilder =
  fn :: "'st Function"
  insert_point :: string

definition GeneratePrototype ::
  "string \<Rightarrow> 'st llvm_type \<Rightarrow> (string \<times> 'st llvm_type) list \<Rightarrow> 'st LlvmBuilder" where
  "GeneratePrototype name ret args =
     \<lparr>fn = \<lparr>fn_name = name, ret_type = ret, fn_args = args, blocks = [(''entry'', [])]\<rparr>,
      insert_point = ''entry''\<rparr>"

definition CreateIfElseBlocks :: "string \<Rightarrow> string \<Rightarrow> 'st LlvmBuilder \<Rightarrow> 'st LlvmBuilder" where
  "CreateIfElseBlocks if_name else_name b =
     b\<lparr>fn := (fn b)\<lparr>blocks := blocks (fn b) @ [(if_name, []), (else_name, [])]\<rparr>\<rparr>"

definition SetInsertPoint :: "string \<Rightarrow> 'st LlvmBuilder \<Rightarrow> 'st LlvmBuilder" where
  "SetInsertPoint block b = b\<lparr>insert_point := block\<rparr>"

definition Insert :: "instr \<Rightarrow> 'st LlvmBuilder \<Rightarrow> 'st LlvmBuilder" where
  "Insert i b =
     b\<lparr>fn := (fn b)\<lparr>blocks :=
          map (\<lambda>(l, is). if l = insert_point b then (l, is @ [i]) else (l, is))
              (blocks (fn b))\<rparr>\<rparr>"

definition CreateEntryBlockAlloca :: "string \<Rightarrow> 'st LlvmBuilder \<Rightarrow> 'st LlvmBuilder" where
  "CreateEntryBlockAlloca var b =
     b\<lparr>fn := (fn b)\<lparr>blocks :=
          (case blocks (fn b) of
             [] \<Rightarrow> []
           | (l, is) # bs \<Rightarrow> (l, Alloca var # is) # bs)\<rparr>\<rparr>"

text \<open>A sequence of builder calls, applied first to last.\<close>

primrec build :: "('s \<Rightarrow> 's) list \<Rightarrow> 's \<Rightarrow> 's" where
  "build [] b = b"
| "build (step # steps) b = build steps (step b)"

text \<open>\<open>codegen->GetIntConstant(TYPE_INT, v)\<close>, \<open>codegen->true_value()\<close>, \<open>codegen->false_value()\<close>.\<close>

definition GetIntConstant_INT :: "int \<Rightarrow> operand" where
  "GetIntConstant_INT v = Const (I32 (word_of_int v))"

definition true_value :: operand where
  "true_value = Const (I1 True)"

definition false_value :: operand where
  "false_value = Const (I1 False)"

text \<open>
  Modelled from the spec: \<open>FinalizeFunction\<close> turns the function into the callable artifact
  or fails (\<open>None\<close>); which of the two is the backend's verdict \<open>VerifyFunction\<close>.
\<close>

record 'st LlvmCodeGen =
  VerifyFunction :: "'st Function \<Rightarrow> bool"

definition FinalizeFunction :: "'st LlvmCodeGen \<Rightarrow> 'st Function \<Rightarrow> 'st Function option" where
  "FinalizeFunction codegen f = (if VerifyFunction codegen f then Some f else None)"

subsection \<open>The generator\<close>

text \<open>
  The \<open>switch\<close> on the slot type that picks the parser; \<open>None\<close> is its \<open>default\<close> branch
  (\<open>DCHECK(false); return NULL;\<close>, which in a release build returns \<open>NULL\<close>).
\<close>

fun parse_fn_enum_of :: "PrimitiveType \<Rightarrow> IRFunction option" where
  "parse_fn_enum_of TYPE_BOOLEAN = Some STRING_TO_BOOL"
| "parse_fn_enum_of TYPE_TINYINT = Some STRING_TO_INT8"
| "parse_fn_enum_of TYPE_SMALLINT = Some STRING_TO_INT16"
| "parse_fn_enum_of TYPE_INT = Some STRING_TO_INT32"
| "parse_fn_enum_of TYPE_BIGINT = Some STRING_TO_INT64"
| "parse_fn_enum_of TYPE_FLOAT = Some STRING_TO_FLOAT"
| "parse_fn_enum_of TYPE_DOUBLE = Some STRING_TO_DOUBLE"
| "parse_fn_enum_of _ = None"

text \<open>What \<open>LOG(WARNING)\<close> and \<open>LOG(ERROR)\<close> write: a severity and a message.\<close>

datatype severity = WARNING | ERROR

text \<open>
  \<open>CodegenWriteSlot\<close>. The escape byte is the converter's \<open>escape_char_\<close>.
  \<open>StringParser::PARSE_FAILURE\<close> comes from a header that is not among the sources and is a
  parameter (the listing above the function compares with the constant 1). The result is
  what was logged and the function returned (\<open>None\<close> for \<open>NULL\<close>). \<open>SCOPED_TIMER\<close> only
  measures time and is left out.
\<close>

definition CodegenWriteSlot ::
  "byte \<Rightarrow> int \<Rightarrow> 'st LlvmCodeGen \<Rightarrow> 'st TupleDescriptor \<Rightarrow> 'st SlotDescriptor
     \<Rightarrow> (severity \<times> string) list \<times> 'st Function option" where
  "CodegenWriteSlot escape_char PARSE_FAILURE codegen tuple_desc slot_desc =
   (if type slot_desc = TYPE_STRING \<and> escape_char \<noteq> 0 then
      ([(WARNING, ''Could not codegen WriteSlot because escape characters are not yet supported.'')],
       None)
    else case GenerateLlvmStruct tuple_desc of
      None \<Rightarrow> ([], None)
    | Some tuple_type \<Rightarrow>
     (case CodegenUpdateNull slot_desc tuple_type True of
        None \<Rightarrow>
          ([(ERROR, ''Could not codegen WriteSlot because slot update codegen failed.'')], None)
      | Some set_null_fn \<Rightarrow>
        let builder = build
             [CreateIfElseBlocks ''set_null'' ''parse_slot'',
              Insert (ICmpEQ ''len_zero'' (Arg 2) (GetIntConstant_INT 0)),
              Insert (CondBr (Reg ''len_zero'') ''set_null'' ''parse_slot''),
              SetInsertPoint ''parse_slot'',
              Insert (StructGEP ''slot'' (Arg 0) (field_idx slot_desc))]
             (GeneratePrototype ''WriteSlot'' (GetType TYPE_BOOLEAN)
                [(''tuple_arg'', PointerType_get tuple_type),
                 (''data'', ptr_type),
                 (''len'', GetType TYPE_INT)]);
            len_zero_case = build
             [SetInsertPoint ''set_null'',
              Insert (Call None (Fn set_null_fn) [Arg 0]),
              Insert (Ret true_value)]
        in if type slot_desc = TYPE_STRING then
             ([], FinalizeFunction codegen (fn (len_zero_case (build
               [Insert (StructGEP ''ptr'' (Reg ''slot'') 0),
                Insert (StructGEP ''len'' (Reg ''slot'') 1),
                Insert (Store (Arg 1) (Reg ''ptr'')),
                Insert (Store (Arg 2) (Reg ''len'')),
                Insert (Ret true_value)] builder))))
           else case parse_fn_enum_of (type slot_desc) of
             None \<Rightarrow> ([], None)
           | Some parse_fn_enum \<Rightarrow>
             ([], FinalizeFunction codegen (fn (len_zero_case (build
               [CreateIfElseBlocks ''parse_success'' ''parse_fail'',
                CreateEntryBlockAlloca ''parse_result_ptr'',
                Insert (Call (Some ''result'') (IrFn parse_fn_enum)
                          [Arg 1, Arg 2, Reg ''parse_result_ptr'']),
                Insert (Load ''parse_result_val'' (Reg ''parse_result_ptr'')),
                Insert (ICmpEQ ''parse_failed'' (Reg ''parse_result_val'')
                          (GetIntConstant_INT PARSE_FAILURE)),
                Insert (CondBr (Reg ''parse_failed'') ''parse_fail'' ''parse_success''),
                SetInsertPoint ''parse_success'',
                Insert (Store (Reg ''result'') (Reg ''slot'')),
                Insert (Ret true_value),
                SetInsertPoint ''parse_fail'',
                Insert (Call None (Fn set_null_fn) [Arg 0]),
                Insert (Ret false_value)] builder))))))"

text \<open>
  The generator's output in closed form, for a field index, a parser and a null-marking
  function: the listing in the comment above \<open>CodegenWriteSlot\<close>, and its counterpart for a
  string slot. \<open>CodegenWriteSlot_scalar\<close> and \<open>CodegenWriteSlot_string\<close> below prove that the
  generator produces exactly these blocks.
\<close>

definition WriteSlot_scalar_blocks ::
  "nat \<Rightarrow> IRFunction \<Rightarrow> string \<Rightarrow> int \<Rightarrow> (string \<times> instr list) list" where
  "WriteSlot_scalar_blocks idx parse_fn_enum set_null_fn PARSE_FAILURE =
     [(''entry'',
       [Alloca ''parse_result_ptr'',
        ICmpEQ ''len_zero'' (Arg 2) (Const (I32 0)),
        CondBr (Reg ''len_zero'') ''set_null'' ''parse_slot'']),
      (''set_null'',
       [Call None (Fn set_null_fn) [Arg 0], Ret (Const (I1 True))]),
      (''parse_slot'',
       [StructGEP ''slot'' (Arg 0) idx,
        Call (Some ''result'') (IrFn parse_fn_enum) [Arg 1, Arg 2, Reg ''parse_result_ptr''],
        Load ''parse_result_val'' (Reg ''parse_result_ptr''),
        ICmpEQ ''parse_failed'' (Reg ''parse_result_val'')
          (Const (I32 (word_of_int PARSE_FAILURE))),
        CondBr (Reg ''parse_failed'') ''parse_fail'' ''parse_success'']),
      (''parse_success'',
       [Store (Reg ''result'') (Reg ''slot''), Ret (Const (I1 True))]),
      (''parse_fail'',
       [Call None (Fn set_null_fn) [Arg 0], Ret (Const (I1 False))])]"

definition WriteSlot_string_blocks :: "nat \<Rightarrow> string \<Rightarrow> (string \<times> instr list) list" where
  "WriteSlot_string_blocks idx set_null_fn =
     [(''entry'',
       [ICmpEQ ''len_zero'' (Arg 2) (Const (I32 0)),
        CondBr (Reg ''len_zero'') ''set_null'' ''parse_slot'']),
      (''set_null'',
       [Call None (Fn set_null_fn) [Arg 0], Ret (Const (I1 True))]),
      (''parse_slot'',
       [StructGEP ''slot'' (Arg 0) idx,
        StructGEP ''ptr'' (Reg ''slot'') 0,
        StructGEP ''len'' (Reg ''slot'') 1,
        Store (Arg 1) (Reg ''ptr''),
        Store (Arg 2) (Reg ''len''),
        Ret (Const (I1 True))])]"

subsection \<open>Running a generated routine\<close>

text \<open>
  Modelled from the spec: how the backend executes the routine is outside the sources. The
  tuple memory maps a path of struct indices to the value stored there (a slot is
  \<open>[field_idx]\<close>, the pointer and the length of a string slot \<open>[field_idx, 0]\<close> and
  \<open>[field_idx, 1]\<close>); the one stack cell is the \<open>alloca\<close> for the parser's out-parameter.
  The execution records what the routine did to the outside: every call and every store.
  The collaborators met at run time are parameters: what the null-marking function does to
  the tuple, and what each \<open>StringTo*\<close> parser returns for a field (its value and the status
  it writes through the out-parameter). An ill-formed step (an undefined register, an
  operand of the wrong kind, a block without terminator) is \<open>None\<close>, and so is running
  out of \<open>fuel\<close>, the number of blocks the execution may enter.
\<close>

type_synonym tuple_mem = "nat list \<Rightarrow> val"

datatype event = Called callee | Stored ptr val

record state =
  regs :: "string \<rightharpoonup> val"
  tuple :: tuple_mem
  stack :: "string \<rightharpoonup> val"
  trace :: "event list"

record runtime =
  update_null :: "string \<Rightarrow> tuple_mem \<Rightarrow> tuple_mem"
  string_to :: "IRFunction \<Rightarrow> 64 word \<Rightarrow> 32 word \<Rightarrow> val \<times> 32 word"

fun eval :: "val list \<Rightarrow> state \<Rightarrow> operand \<Rightarrow> val option" where
  "eval args s (Arg i) = (if i < length args then Some (args ! i) else None)"
| "eval args s (Const v) = Some v"
| "eval args s (Reg r) = regs s r"

fun exec_instr :: "runtime \<Rightarrow> val list \<Rightarrow> instr \<Rightarrow> state \<Rightarrow> state option" where
  "exec_instr rt args (Alloca r) s =
     Some (s\<lparr>regs := (regs s)(r \<mapsto> Ptr (StackPtr r))\<rparr>)"
| "exec_instr rt args (ICmpEQ r a b) s =
     (case (eval args s a, eval args s b) of
        (Some x, Some y) \<Rightarrow> Some (s\<lparr>regs := (regs s)(r \<mapsto> I1 (x = y))\<rparr>)
      | _ \<Rightarrow> None)"
| "exec_instr rt args (StructGEP r p i) s =
     (case eval args s p of
        Some (Ptr (TuplePtr path)) \<Rightarrow> Some (s\<lparr>regs := (regs s)(r \<mapsto> Ptr (TuplePtr (path @ [i])))\<rparr>)
      | _ \<Rightarrow> None)"
| "exec_instr rt args (Store v p) s =
     (case (eval args s v, eval args s p) of
        (Some x, Some (Ptr (TuplePtr path))) \<Rightarrow>
          Some (s\<lparr>tuple := (tuple s)(path := x), trace := trace s @ [Stored (TuplePtr path) x]\<rparr>)
      | (Some x, Some (Ptr (StackPtr c))) \<Rightarrow>
          Some (s\<lparr>stack := (stack s)(c \<mapsto> x), trace := trace s @ [Stored (StackPtr c) x]\<rparr>)
      | _ \<Rightarrow> None)"
| "exec_instr rt args (Load r p) s =
     (case eval args s p of
        Some (Ptr (TuplePtr path)) \<Rightarrow> Some (s\<lparr>regs := (regs s)(r \<mapsto> tuple s path)\<rparr>)
      | Some (Ptr (StackPtr c)) \<Rightarrow>
          (case stack s c of Some x \<Rightarrow> Some (s\<lparr>regs := (regs s)(r \<mapsto> x)\<rparr>) | None \<Rightarrow> None)
      | _ \<Rightarrow> None)"
| "exec_instr rt args (Call r (Fn f) actuals) s =
     (case (r, map (eval args s) actuals) of
        (None, [Some (Ptr (TuplePtr []))]) \<Rightarrow>
          Some (s\<lparr>tuple := update_null rt f (tuple s), trace := trace s @ [Called (Fn f)]\<rparr>)
      | _ \<Rightarrow> None)"
| "exec_instr rt args (Call r (IrFn f) actuals) s =
     (case (r, map (eval args s) actuals) of
        (Some res, [Some (Ptr (DataPtr data)), Some (I32 len), Some (Ptr (StackPtr c))]) \<Rightarrow>
          (case string_to rt f data len of
             (v, parse_result) \<Rightarrow>
               Some (s\<lparr>regs := (regs s)(res \<mapsto> v), stack := (stack s)(c \<mapsto> I32 parse_result),
                       trace := trace s @ [Called (IrFn f)]\<rparr>))
      | _ \<Rightarrow> None)"
| "exec_instr rt args (CondBr c t e) s = None"
| "exec_instr rt args (Ret v) s = None"

datatype step = Branch string state | Return val state

fun exec_block :: "runtime \<Rightarrow> val list \<Rightarrow> instr list \<Rightarrow> state \<Rightarrow> step option" where
  "exec_block rt args [] s = None"
| "exec_block rt args (CondBr c t e # is) s =
     (case eval args s c of
        Some (I1 b) \<Rightarrow> Some (Branch (if b then t else e) s)
      | _ \<Rightarrow> None)"
| "exec_block rt args (Ret v # is) s =
     (case eval args s v of Some x \<Rightarrow> Some (Return x s) | None \<Rightarrow> None)"
| "exec_block rt args (i # is) s =
     (case exec_instr rt args i s of None \<Rightarrow> None | Some s' \<Rightarrow> exec_block rt args is s')"

fun exec_fn ::
  "nat \<Rightarrow> runtime \<Rightarrow> 'st Function \<Rightarrow> val list \<Rightarrow> string \<Rightarrow> state \<Rightarrow> (val \<times> state) option" where
  "exec_fn 0 rt f args l s = None"
| "exec_fn (Suc fuel) rt f args l s =
     (case map_of (blocks f) l of
        None \<Rightarrow> None
      | Some is \<Rightarrow>
         (case exec_block rt args is s of
            None \<Rightarrow> None
          | Some (Return v s') \<Rightarrow> Some (v, s')
          | Some (Branch l' s') \<Rightarrow> exec_fn fuel rt f args l' s'))"

definition call_routine ::
  "nat \<Rightarrow> runtime \<Rightarrow> 'st Function \<Rightarrow> tuple_mem \<Rightarrow> 64 word \<Rightarrow> 32 word
     \<Rightarrow> (val \<times> tuple_mem \<times> event list) option" where
  "call_routine fuel rt f tuple_arg data len =
     (case exec_fn fuel rt f [Ptr (TuplePtr []), Ptr (DataPtr data), I32 len] ''entry''
             \<lparr>regs = Map.empty, tuple = tuple_arg, stack = Map.empty, trace = []\<rparr> of
        None \<Rightarrow> None
      | Some (v, s) \<Rightarrow> Some (v, tuple s, trace s))"

section \<open>Properties of the unescaper\<close>

subsection \<open>Facts about the loop\<close>

text \<open>Scanning \<open>xs @ ys\<close> is scanning \<open>xs\<close> and then \<open>ys\<close> from the state reached.\<close>

lemma unescape_loop_append:
  "unescape_loop e (xs @ ys) f d n =
     (case unescape_loop e xs f d n of
        None \<Rightarrow> None
      | Some (d', n', f') \<Rightarrow> unescape_loop e ys f' d' n')"
  by (induction xs arbitrary: f d n) (simp_all add: Let_def)

text \<open>Bytes other than the escape byte are copied one for one.\<close>

lemma unescape_loop_no_escape:
  "\<forall>c\<in>set xs. c \<noteq> e \<Longrightarrow> n + length xs \<le> length d \<Longrightarrow>
   unescape_loop e xs f d n =
     Some (take n d @ xs @ drop (n + length xs) d, n + length xs, xs = [] \<and> f)"
proof (induction xs arbitrary: f d n)
  case Nil
  then show ?case by simp
next
  case (Cons c xs)
  from Cons.prems have ne: "c \<noteq> e" and rest: "\<forall>c\<in>set xs. c \<noteq> e"
    and room: "Suc n + length xs \<le> length (d[n := c])" and lt: "n < length d"
    by simp_all
  have "unescape_loop e (c # xs) f d n = unescape_loop e xs False (d[n := c]) (Suc n)"
    using ne lt by simp
  also have "\<dots> = Some (take (Suc n) (d[n := c]) @ xs @ drop (Suc n + length xs) (d[n := c]),
                          Suc n + length xs, xs = [] \<and> False)"
    by (rule Cons.IH [OF rest room])
  also have "take (Suc n) (d[n := c]) = take n d @ [c]"
    using lt by (simp add: take_Suc_conv_app_nth)
  also have "drop (Suc n + length xs) (d[n := c]) = drop (n + length (c # xs)) d"
    by simp
  finally show ?case by simp
qed

text \<open>
  With room for every remaining byte the loop ends; the cursor moves forward by at most the
  number of bytes scanned, and the destination changes only between the old and the new
  cursor.
\<close>

lemma unescape_loop_frame:
  "n + length xs \<le> length d \<Longrightarrow>
   \<exists>d' n' f'. unescape_loop e xs f d n = Some (d', n', f') \<and> n \<le> n' \<and> n' \<le> n + length xs
     \<and> length d' = length d \<and> take n d' = take n d \<and> drop n' d' = drop n' d"
proof (induction xs arbitrary: f d n)
  case Nil
  then show ?case by simp
next
  case (Cons c xs)
  let ?f = "if c = e then \<not> f else False"
  show ?case
  proof (cases ?f)
    case True
    from Cons.prems have "n + length xs \<le> length d" by simp
    from Cons.IH [where f = True, OF this] obtain d' n' f' where
      "unescape_loop e xs True d n = Some (d', n', f')" "n \<le> n'" "n' \<le> n + length xs"
      "length d' = length d" "take n d' = take n d" "drop n' d' = drop n' d" by blast
    with True show ?thesis by (auto split: if_splits)
  next
    case False
    from Cons.prems have lt: "n < length d" and room: "Suc n + length xs \<le> length (d[n := c])"
      by simp_all
    from Cons.IH [where f = False, OF room] obtain d' n' f' where
      r: "unescape_loop e xs False (d[n := c]) (Suc n) = Some (d', n', f')" and
      b: "Suc n \<le> n'" "n' \<le> Suc n + length xs" and
      l: "length d' = length (d[n := c])" and
      t: "take (Suc n) d' = take (Suc n) (d[n := c])" and
      dr: "drop n' d' = drop n' (d[n := c])" by blast
    have "take n d' = take n (take (Suc n) d')" by simp
    also have "\<dots> = take n d" unfolding t by simp
    finally have t': "take n d' = take n d" .
    have dr': "drop n' d' = drop n' d" using dr b by simp
    from False lt have "unescape_loop e (c # xs) f d n = Some (d', n', f')"
      using r by (auto split: if_splits)
    with b l t' dr' show ?thesis by simp
  qed
qed

text \<open>Two escape bytes in a row: one is skipped, one is copied, and the flag is as before.\<close>

lemma unescape_loop_pair:
  "unescape_loop e (e # e # xs) f d n =
     (if n < length d then unescape_loop e xs f (d[n := e]) (Suc n) else None)"
  by (cases f) simp_all

text \<open>
  The flag at the end of a scan is the parity of the run of escape bytes the input ends
  with (together with the initial flag when the input is nothing but escape bytes).
\<close>

lemma unescape_loop_flag:
  "unescape_loop e xs f d n = Some (d', n', f') \<Longrightarrow>
   f' = (if \<forall>c\<in>set xs. c = e then f \<noteq> odd (length xs)
         else odd (length (takeWhile (\<lambda>c. c = e) (rev xs))))"
proof (induction xs arbitrary: d' n' f' rule: rev_induct)
  case Nil
  then show ?case by simp
next
  case (snoc c xs)
  from snoc.prems obtain d1 n1 f1 where
    r1: "unescape_loop e xs f d n = Some (d1, n1, f1)" and
    r2: "unescape_loop e [c] f1 d1 n1 = Some (d', n', f')"
    by (auto simp: unescape_loop_append split: option.splits)
  note IH = snoc.IH [OF r1]
  show ?case
  proof (cases "c = e")
    case True
    with r2 have "f' = (\<not> f1)" by (auto split: if_splits)
    with IH True show ?thesis by auto
  next
    case False
    with r2 have "\<not> f'" by (auto split: if_splits)
    with False show ?thesis by auto
  qed
qed

text \<open>The write cursor stays inside the destination, whose size never changes.\<close>

lemma unescape_loop_cursor:
  "unescape_loop e xs f d n = Some (d', n', f') \<Longrightarrow> n \<le> length d \<Longrightarrow>
   n' \<le> length d' \<and> length d' = length d"
proof (induction xs arbitrary: f d n)
  case Nil
  then show ?case by simp
next
  case (Cons c xs)
  show ?case
  proof (cases "if c = e then \<not> f else False")
    case True
    with Cons.prems have "unescape_loop e xs True d n = Some (d', n', f')"
      by (auto split: if_splits)
    from Cons.IH [OF this Cons.prems(2)] show ?thesis .
  next
    case False
    with Cons.prems have lt: "n < length d"
      and r: "unescape_loop e xs False (d[n := c]) (Suc n) = Some (d', n', f')"
      by (auto split: if_splits)
    from lt have "Suc n \<le> length (d[n := c])" by simp
    from Cons.IH [OF r this] show ?thesis by simp
  qed
qed

text \<open>Up to and including the first escape byte: the prefix is copied, the escape byte is not.\<close>

lemma unescape_loop_through_first_escape:
  assumes "e \<notin> set pre" and "length pre \<le> length dest"
  shows "unescape_loop e (pre @ [e]) False dest 0 =
           Some (pre @ drop (length pre) dest, length pre, True)"
proof -
  from assms(1) have "\<forall>c\<in>set pre. c \<noteq> e" by auto
  from unescape_loop_no_escape [OF this, of 0 dest False] assms(2)
  have "unescape_loop e pre False dest 0 = Some (pre @ drop (length pre) dest, length pre, False)"
    by simp
  then show ?thesis by (simp add: unescape_loop_append)
qed

text \<open>An input with an escape byte comes out shorter than it went in.\<close>

lemma unescape_loop_shrinks:
  assumes "e \<in> set src" and "length src \<le> length dest"
  shows "\<exists>d n f. unescape_loop e src False dest 0 = Some (d, n, f) \<and> n < length src
           \<and> length d = length dest"
proof -
  from split_list_first [OF assms(1)] obtain pre post where
    src: "src = pre @ e # post" and pre: "e \<notin> set pre" by blast
  let ?d = "pre @ drop (length pre) dest"
  from assms(2) src have room: "length pre \<le> length dest" by simp
  have 1: "unescape_loop e (pre @ [e]) False dest 0 = Some (?d, length pre, True)"
    by (rule unescape_loop_through_first_escape [OF pre room])
  from assms(2) src have "length pre + length post \<le> length ?d" by simp
  from unescape_loop_frame [OF this, of e True] obtain d n f where
    2: "unescape_loop e post True ?d (length pre) = Some (d, n, f)"
    and n: "n \<le> length pre + length post" and l: "length d = length ?d" by blast
  have "src = (pre @ [e]) @ post" by (simp add: src)
  then have "unescape_loop e src False dest 0 = Some (d, n, f)"
    using 1 2 by (simp only: unescape_loop_append option.case prod.case)
  moreover have "n < length src" using n src by simp
  moreover have "length d = length dest" using l room by simp
  ultimately show ?thesis by blast
qed

subsection \<open>The claims about the unescaper\<close>

text \<open>
  C5. For every byte sequence that contains no occurrence of the configured escape byte,
  \<open>UnescapeString\<close> copies the input to the output unchanged, and the new length equals the
  input length. The destination is the caller's storage of at least \<open>len\<close> bytes; the bytes
  of it beyond \<open>len\<close> stay as they were.
\<close>

theorem UnescapeString_identity_without_escape:
  assumes "escape_char \<notin> set src" and "length src \<le> length dest"
  shows "UnescapeString escape_char src dest =
           Some (src @ drop (length src) dest, int (length src))
         \<and> unescaped (src @ drop (length src) dest, int (length src)) = src"
proof -
  from assms(1) have "\<forall>c\<in>set src. c \<noteq> escape_char" by auto
  from unescape_loop_no_escape [OF this, of 0 dest False] assms(2)
  show ?thesis by (simp add: UnescapeString_def unescaped_def)
qed

theorem UnescapeString_identity_without_escape_witness:
  "92 \<notin> set [104, 105 :: byte] \<and> length [104, 105 :: byte] \<le> length [0, 0, 0 :: byte]
   \<and> UnescapeString 92 [104, 105] [0, 0, 0] = Some ([104, 105, 0], 2)
   \<and> unescaped ([104, 105, 0 :: byte], 2) = [104, 105]"
  using UnescapeString_identity_without_escape [of 92 "[104, 105]" "[0, 0, 0]"] by simp

text \<open>
  C6. For every input position where two consecutive escape bytes occur, \<open>UnescapeString\<close>
  emits exactly one literal escape byte for that pair: whatever precedes the pair (\<open>pre\<close>)
  and whatever state \<open>(d, n, f)\<close> the scan of it ends in, scanning on through the pair
  writes the escape byte once, at the cursor \<open>n\<close>, moves the cursor by one and leaves the
  flag as it was; the rest of the input (\<open>post\<close>) is scanned from there.
\<close>

theorem UnescapeString_escape_pair:
  assumes "length pre < length dest"
  shows "\<exists>d n f. unescape_loop escape_char pre False dest 0 = Some (d, n, f)
           \<and> n < length d
           \<and> unescape_loop escape_char (pre @ [escape_char, escape_char]) False dest 0 =
               Some (d[n := escape_char], Suc n, f)
           \<and> UnescapeString escape_char (pre @ escape_char # escape_char # post) dest =
               (case unescape_loop escape_char post f (d[n := escape_char]) (Suc n) of
                  None \<Rightarrow> None
                | Some (dest', dest_ptr, escape_next_char) \<Rightarrow> Some (dest', int dest_ptr))"
proof -
  from assms have "0 + length pre \<le> length dest" by simp
  from unescape_loop_frame [OF this, of escape_char False] obtain d n f where
    r: "unescape_loop escape_char pre False dest 0 = Some (d, n, f)"
    and "n \<le> 0 + length pre" and "length d = length dest" by blast
  with assms have n: "n < length d" by simp
  from r n have
    "unescape_loop escape_char (pre @ [escape_char, escape_char]) False dest 0 =
       Some (d[n := escape_char], Suc n, f)"
    "UnescapeString escape_char (pre @ escape_char # escape_char # post) dest =
       (case unescape_loop escape_char post f (d[n := escape_char]) (Suc n) of
          None \<Rightarrow> None
        | Some (dest', dest_ptr, escape_next_char) \<Rightarrow> Some (dest', int dest_ptr))"
    by (simp_all add: UnescapeString_def unescape_loop_append unescape_loop_pair
                 del: unescape_loop.simps(2))
  with r n show ?thesis by blast
qed

theorem UnescapeString_escape_pair_witness:
  "length [97 :: byte] < length [0, 0, 0, 0 :: byte]
   \<and> unescape_loop 92 [97] False [0, 0, 0, 0] 0 = Some ([97, 0, 0, 0], 1, False)
   \<and> unescape_loop 92 ([97] @ [92, 92]) False [0, 0, 0, 0] 0 = Some ([97, 92, 0, 0], 2, False)
   \<and> UnescapeString 92 ([97] @ 92 # 92 # [98]) [0, 0, 0, 0] = Some ([97, 92, 98, 0], 3)"
proof -
  have h: "length [97 :: byte] < length [0, 0, 0, 0 :: byte]" by simp
  from UnescapeString_escape_pair [OF h, of 92 "[98]"] h show ?thesis by simp
qed

text \<open>
  C7. For every input whose final byte is an escape byte that is not itself escaped, that
  is, one that an even number (possibly zero) of consecutive escape bytes precedes,
  \<open>UnescapeString\<close> consumes that byte and emits nothing for it: the call gives what it gives
  on the input without its final byte.
\<close>

theorem UnescapeString_trailing_escape:
  assumes "even (length (takeWhile (\<lambda>c. c = escape_char) (rev pre)))"
  shows "UnescapeString escape_char (pre @ [escape_char]) dest =
         UnescapeString escape_char pre dest"
proof (cases "unescape_loop escape_char pre False dest 0")
  case None
  then show ?thesis by (simp add: UnescapeString_def unescape_loop_append)
next
  case (Some s)
  obtain d n f where s: "s = (d, n, f)" by (cases s)
  from unescape_loop_flag [OF Some [unfolded s]] assms have "\<not> f"
  proof (cases "\<forall>c\<in>set pre. c = escape_char")
    case True
    then have "takeWhile (\<lambda>c. c = escape_char) (rev pre) = rev pre"
      by (simp add: takeWhile_eq_all_conv)
    with assms have "even (length pre)" by simp
    with True \<open>f = _\<close> show ?thesis by simp
  next
    case False
    with assms \<open>f = _\<close> show ?thesis by simp
  qed
  with Some s show ?thesis by (simp add: UnescapeString_def unescape_loop_append)
qed

theorem UnescapeString_trailing_escape_witness:
  "even (length (takeWhile (\<lambda>c. c = 92) (rev [97 :: byte])))
   \<and> UnescapeString 92 ([97] @ [92]) [0, 0] = Some ([97, 0], 1)
   \<and> unescaped ([97, 0 :: byte], 1) = [97]"
proof -
  have h: "even (length (takeWhile (\<lambda>c. c = 92) (rev [97 :: byte])))" by simp
  have "UnescapeString 92 [97] [0, 0] = Some ([97, 0], 1)"
    by (simp add: UnescapeString_def)
  with UnescapeString_trailing_escape [OF h, of "[0, 0]"] h show ?thesis
    by (simp add: unescaped_def)
qed

text \<open>
  C8. Once no escape byte remains in the output of a pass, a second pass over that output
  is a no-op: it hands back the same bytes and the same length.
\<close>

theorem UnescapeString_second_pass:
  assumes "UnescapeString escape_char src dest = Some r"
    and "escape_char \<notin> set (unescaped r)"
    and "length (unescaped r) \<le> length dest2"
  shows "\<exists>r2. UnescapeString escape_char (unescaped r) dest2 = Some r2
           \<and> unescaped r2 = unescaped r \<and> snd r2 = snd r"
proof -
  from assms(1) obtain d n f where
    loop: "unescape_loop escape_char src False dest 0 = Some (d, n, f)" and r: "r = (d, int n)"
    by (auto simp: UnescapeString_def split: option.splits)
  from unescape_loop_cursor [OF loop] have "n \<le> length d" by simp
  then have len: "length (unescaped r) = n" by (simp add: r unescaped_def)
  from assms(2) have "\<forall>c\<in>set (unescaped r). c \<noteq> escape_char" by auto
  from unescape_loop_no_escape [OF this, of 0 dest2 False] assms(3)
  have "UnescapeString escape_char (unescaped r) dest2 =
          Some (unescaped r @ drop n dest2, int n)"
    by (simp add: UnescapeString_def len)
  moreover have "unescaped (xs @ drop n dest2, int n) = xs" if "length xs = n" for xs
    using that by (simp add: unescaped_def)
  note this [OF len]
  ultimately show ?thesis by (simp add: r)
qed

theorem UnescapeString_second_pass_witness:
  "UnescapeString 92 [97, 92, 98] [0, 0, 0] = Some ([97, 98, 0], 2)
   \<and> 92 \<notin> set (unescaped ([97, 98, 0 :: byte], 2))
   \<and> length (unescaped ([97, 98, 0 :: byte], 2)) \<le> length [7, 7 :: byte]
   \<and> (\<exists>r2. UnescapeString 92 (unescaped ([97, 98, 0], 2)) [7, 7] = Some r2
         \<and> unescaped r2 = unescaped ([97, 98, 0], 2) \<and> snd r2 = 2)"
proof -
  have a: "UnescapeString 92 [97, 92, 98] [0, 0, 0] = Some ([97, 98, 0], 2)"
    by (simp add: UnescapeString_def)
  have b: "92 \<notin> set (unescaped ([97, 98, 0 :: byte], 2))"
    by (simp add: unescaped_def)
  have c: "length (unescaped ([97, 98, 0 :: byte], 2)) \<le> length [7, 7 :: byte]"
    by (simp add: unescaped_def)
  from UnescapeString_second_pass [OF a b c] a b c show ?thesis by simp
qed

text \<open>
  The condition is needed: while escape bytes remain in the output, a further pass changes
  it. Four escape bytes give two, and two give one.
\<close>

lemma further_pass_with_escapes_left:
  "UnescapeString 92 [92, 92, 92, 92] [0, 0, 0, 0] = Some ([92, 92, 0, 0], 2)
   \<and> UnescapeString 92 [92, 92] [0, 0] = Some ([92, 0], 1)"
  by (simp add: UnescapeString_def)

text \<open>
  C9. For every input of length \<open>len\<close> and every destination of at least \<open>len\<close> bytes,
  \<open>UnescapeString\<close> returns; the new length is between 0 and \<open>len\<close>; the destination keeps
  its size and is unchanged from the new length on, so at most \<open>len\<close> bytes were written,
  all of them inside the first \<open>len\<close> bytes of the destination.
\<close>

theorem UnescapeString_total_bounded:
  assumes "length src \<le> length dest"
  shows "\<exists>dest' newLen. UnescapeString escape_char src dest = Some (dest', newLen)
           \<and> 0 \<le> newLen \<and> newLen \<le> int (length src)
           \<and> length dest' = length dest
           \<and> drop (nat newLen) dest' = drop (nat newLen) dest"
proof -
  from assms have "0 + length src \<le> length dest" by simp
  from unescape_loop_frame [OF this, of escape_char False]
  obtain d' n' f' where "unescape_loop escape_char src False dest 0 = Some (d', n', f')"
    "n' \<le> 0 + length src" "length d' = length dest" "drop n' d' = drop n' dest" by blast
  then show ?thesis by (simp add: UnescapeString_def)
qed

theorem UnescapeString_total_bounded_witness:
  "length [97, 92, 92, 98, 92 :: byte] \<le> length [1, 2, 3, 4, 5, 6 :: byte]
   \<and> (\<exists>dest' newLen.
         UnescapeString 92 [97, 92, 92, 98, 92] [1, 2, 3, 4, 5, 6] = Some (dest', newLen)
         \<and> 0 \<le> newLen \<and> newLen \<le> int (length [97, 92, 92, 98, 92 :: byte])
         \<and> length dest' = length [1, 2, 3, 4, 5, 6 :: byte]
         \<and> drop (nat newLen) dest' = drop (nat newLen) [1, 2, 3, 4, 5, 6])"
proof -
  have h: "length [97, 92, 92, 98, 92 :: byte] \<le> length [1, 2, 3, 4, 5, 6 :: byte]" by simp
  from UnescapeString_total_bounded [OF h, of 92] h show ?thesis by blast
qed

text \<open>
  C10. With the escape byte 0x00 the generator never refuses a string slot for escaping (it
  takes 0x00 as "no escaping configured"), yet \<open>UnescapeString\<close> treats every 0x00 input
  byte as an escape marker: each one toggles the flag, and it is dropped when the flag was
  clear and copied when the flag was set. The first NUL of an input finds the flag clear,
  so it is always dropped: the new length is smaller than the input length, and
  \<open>UnescapeString\<close> is not the identity on any input that contains a NUL byte.
\<close>

theorem UnescapeString_NUL_escape_char:
  "fst (CodegenWriteSlot 0 PARSE_FAILURE codegen tuple_desc slot_desc) \<noteq>
     [(WARNING, ''Could not codegen WriteSlot because escape characters are not yet supported.'')]
   \<and> unescape_loop 0 (0 # rest) escape_next_char dest dest_ptr =
       (if escape_next_char then
          if dest_ptr < length dest
          then unescape_loop 0 rest False (dest[dest_ptr := 0]) (dest_ptr + 1)
          else None
        else unescape_loop 0 rest True dest dest_ptr)
   \<and> (0 \<notin> set pre \<and> length pre \<le> length dest \<longrightarrow>
        unescape_loop 0 (pre @ [0]) False dest 0 =
          Some (pre @ drop (length pre) dest, length pre, True))
   \<and> (0 \<in> set src \<and> length src \<le> length dest \<longrightarrow>
        (\<exists>dest' newLen. UnescapeString 0 src dest = Some (dest', newLen)
           \<and> newLen < int (length src) \<and> unescaped (dest', newLen) \<noteq> src))"
proof (intro conjI impI)
  show "fst (CodegenWriteSlot 0 PARSE_FAILURE codegen tuple_desc slot_desc) \<noteq>
     [(WARNING, ''Could not codegen WriteSlot because escape characters are not yet supported.'')]"
    by (simp add: CodegenWriteSlot_def Let_def split: option.splits)
next
  show "unescape_loop 0 (0 # rest) escape_next_char dest dest_ptr =
       (if escape_next_char then
          if dest_ptr < length dest
          then unescape_loop 0 rest False (dest[dest_ptr := 0]) (dest_ptr + 1)
          else None
        else unescape_loop 0 rest True dest dest_ptr)"
    by simp
next
  assume "0 \<notin> set pre \<and> length pre \<le> length dest"
  then have "0 \<notin> set pre" and "length pre \<le> length dest" by simp_all
  then show "unescape_loop 0 (pre @ [0]) False dest 0 =
          Some (pre @ drop (length pre) dest, length pre, True)"
    by (rule unescape_loop_through_first_escape)
next
  assume a: "0 \<in> set src \<and> length src \<le> length dest"
  then obtain d n f where
    r: "unescape_loop 0 src False dest 0 = Some (d, n, f)" and n: "n < length src"
    using unescape_loop_shrinks [of 0 src dest] by blast
  have "length (unescaped (d, int n)) \<le> n" by (simp add: unescaped_def)
  with n have "unescaped (d, int n) \<noteq> src" by auto
  with r n show "\<exists>dest' newLen. UnescapeString 0 src dest = Some (dest', newLen)
           \<and> newLen < int (length src) \<and> unescaped (dest', newLen) \<noteq> src"
    by (simp add: UnescapeString_def)
qed

theorem UnescapeString_NUL_escape_char_witness:
  "(0 :: byte) \<notin> set [97] \<and> length [97 :: byte] \<le> length [7, 7, 7 :: byte]
   \<and> unescape_loop 0 ([97] @ [0]) False [7, 7, 7] 0 = Some ([97, 7, 7], 1, True)
   \<and> (0 :: byte) \<in> set [97, 0, 98] \<and> length [97, 0, 98 :: byte] \<le> length [7, 7, 7 :: byte]
   \<and> (\<exists>dest' newLen. UnescapeString 0 [97, 0, 98] [7, 7, 7] = Some (dest', newLen)
         \<and> newLen < 3 \<and> unescaped (dest', newLen) \<noteq> [97, 0, 98])"
  using UnescapeString_NUL_escape_char
          [of 1 "\<lparr>VerifyFunction = \<lambda>f. True\<rparr>" "\<lparr>GenerateLlvmStruct = Some ()\<rparr>"
              "\<lparr>type = TYPE_STRING, field_idx = 1, CodegenUpdateNull = \<lambda>t b. Some ''SetNull''\<rparr>"
              "[]" False "[7, 7, 7]" 0 "[97]" "[97, 0, 98]"]
  by simp

text \<open>
  Not every NUL is dropped, as C10 is worded: of two adjacent NUL bytes the first sets the
  flag and is skipped, the second finds the flag set, clears it and is copied to the output.
\<close>

theorem UnescapeString_NUL_copied:
  "unescape_loop 0 [0] False [7, 7] 0 = Some ([7, 7], 0, True)
   \<and> unescape_loop 0 [0] True [7, 7] 0 = Some ([0, 7], 1, False)
   \<and> UnescapeString 0 [0, 0] [7, 7] = Some ([0, 7], 1)
   \<and> unescaped ([0, 7], 1) = [0]"
  by (simp add: UnescapeString_def unescaped_def)

section \<open>Properties of the generator and of the routines it generates\<close>

subsection \<open>What the generator builds\<close>

lemmas builder_defs =
  GeneratePrototype_def CreateIfElseBlocks_def SetInsertPoint_def Insert_def
  CreateEntryBlockAlloca_def GetIntConstant_INT_def true_value_def false_value_def

text \<open>Every function generated for a string slot has the blocks of \<open>WriteSlot_string_blocks\<close>.\<close>

lemma CodegenWriteSlot_string:
  assumes "CodegenWriteSlot escape_char PARSE_FAILURE codegen tuple_desc slot_desc = (logs, Some f)"
    and "type slot_desc = TYPE_STRING"
  shows "escape_char = 0 \<and> (\<exists>tuple_type set_null_fn.
           GenerateLlvmStruct tuple_desc = Some tuple_type
         \<and> CodegenUpdateNull slot_desc tuple_type True = Some set_null_fn
         \<and> blocks f = WriteSlot_string_blocks (field_idx slot_desc) set_null_fn)"
  using assms
  by (auto simp: CodegenWriteSlot_def FinalizeFunction_def builder_defs Let_def
                 WriteSlot_string_blocks_def
           split: if_splits option.splits)

text \<open>
  Every function generated for another slot has the blocks of \<open>WriteSlot_scalar_blocks\<close>,
  with the parser the \<open>switch\<close> picks for the slot type.
\<close>

lemma CodegenWriteSlot_scalar:
  assumes "CodegenWriteSlot escape_char PARSE_FAILURE codegen tuple_desc slot_desc = (logs, Some f)"
    and "type slot_desc \<noteq> TYPE_STRING"
  shows "\<exists>parse_fn_enum tuple_type set_null_fn.
           parse_fn_enum_of (type slot_desc) = Some parse_fn_enum
         \<and> GenerateLlvmStruct tuple_desc = Some tuple_type
         \<and> CodegenUpdateNull slot_desc tuple_type True = Some set_null_fn
         \<and> blocks f =
             WriteSlot_scalar_blocks (field_idx slot_desc) parse_fn_enum set_null_fn PARSE_FAILURE"
  using assms
  by (auto simp: CodegenWriteSlot_def FinalizeFunction_def builder_defs Let_def
                 WriteSlot_scalar_blocks_def
           split: if_splits option.splits)

text \<open>
  For a 32-bit integer slot at field 1 the generator yields the function listed in the
  comment above \<open>CodegenWriteSlot\<close>.
\<close>

lemma CodegenWriteSlot_int_listing:
  "CodegenWriteSlot 0 1 \<lparr>VerifyFunction = \<lambda>f. True\<rparr> \<lparr>GenerateLlvmStruct = Some ()\<rparr>
     \<lparr>type = TYPE_INT, field_idx = 1, CodegenUpdateNull = \<lambda>t b. Some ''SetNull''\<rparr> =
   ([], Some
     \<lparr>fn_name = ''WriteSlot'', ret_type = GetType TYPE_BOOLEAN,
      fn_args = [(''tuple_arg'', PointerType_get ()), (''data'', ptr_type),
                 (''len'', GetType TYPE_INT)],
      blocks =
        [(''entry'',
          [Alloca ''parse_result_ptr'',
           ICmpEQ ''len_zero'' (Arg 2) (Const (I32 0)),
           CondBr (Reg ''len_zero'') ''set_null'' ''parse_slot'']),
         (''set_null'',
          [Call None (Fn ''SetNull'') [Arg 0], Ret (Const (I1 True))]),
         (''parse_slot'',
          [StructGEP ''slot'' (Arg 0) 1,
           Call (Some ''result'') (IrFn STRING_TO_INT32) [Arg 1, Arg 2, Reg ''parse_result_ptr''],
           Load ''parse_result_val'' (Reg ''parse_result_ptr''),
           ICmpEQ ''parse_failed'' (Reg ''parse_result_val'') (Const (I32 1)),
           CondBr (Reg ''parse_failed'') ''parse_fail'' ''parse_success'']),
         (''parse_success'',
          [Store (Reg ''result'') (Reg ''slot''), Ret (Const (I1 True))]),
         (''parse_fail'',
          [Call None (Fn ''SetNull'') [Arg 0], Ret (Const (I1 False))])]\<rparr>)"
  by (simp add: CodegenWriteSlot_def FinalizeFunction_def builder_defs Let_def)

text \<open>
  Generation succeeds for every supported slot type (for a string slot only without an
  escape byte) once the three collaborators do.
\<close>

lemma CodegenWriteSlot_succeeds:
  assumes "type slot_desc \<in> {TYPE_BOOLEAN, TYPE_TINYINT, TYPE_SMALLINT, TYPE_INT, TYPE_BIGINT,
                              TYPE_FLOAT, TYPE_DOUBLE}
           \<or> type slot_desc = TYPE_STRING \<and> escape_char = 0"
    and "GenerateLlvmStruct tuple_desc = Some tuple_type"
    and "CodegenUpdateNull slot_desc tuple_type True = Some set_null_fn"
    and "\<And>f. VerifyFunction codegen f"
  shows "\<exists>f. CodegenWriteSlot escape_char PARSE_FAILURE codegen tuple_desc slot_desc =
               ([], Some f)"
  using assms by (auto simp: CodegenWriteSlot_def FinalizeFunction_def Let_def)

text \<open>The parser the \<open>switch\<close> picks, type by type; every other type has none.\<close>

lemma parse_fn_enum_of_table:
  "parse_fn_enum_of t = Some p \<longleftrightarrow>
     (t, p) \<in> {(TYPE_BOOLEAN, STRING_TO_BOOL), (TYPE_TINYINT, STRING_TO_INT8),
               (TYPE_SMALLINT, STRING_TO_INT16), (TYPE_INT, STRING_TO_INT32),
               (TYPE_BIGINT, STRING_TO_INT64), (TYPE_FLOAT, STRING_TO_FLOAT),
               (TYPE_DOUBLE, STRING_TO_DOUBLE)}"
  by (cases t) auto

subsection \<open>Running the blocks\<close>

lemma fuel2: "2 \<le> fuel \<Longrightarrow> \<exists>k. fuel = Suc (Suc k)"
  by (cases fuel; simp; rename_tac m; case_tac m; simp)

lemma fuel3: "3 \<le> fuel \<Longrightarrow> \<exists>k. fuel = Suc (Suc (Suc k))"
  by (cases fuel; simp; rename_tac m; case_tac m; simp; rename_tac j; case_tac j; simp)

lemma call_string_blocks_empty:
  assumes "blocks f = WriteSlot_string_blocks idx set_null_fn"
  shows "call_routine (Suc (Suc k)) rt f tuple_arg data 0 =
           Some (I1 True, update_null rt set_null_fn tuple_arg, [Called (Fn set_null_fn)])"
  by (simp add: call_routine_def assms WriteSlot_string_blocks_def)

lemma call_scalar_blocks_empty:
  assumes "blocks f = WriteSlot_scalar_blocks idx parse_fn_enum set_null_fn PARSE_FAILURE"
  shows "call_routine (Suc (Suc k)) rt f tuple_arg data 0 =
           Some (I1 True, update_null rt set_null_fn tuple_arg, [Called (Fn set_null_fn)])"
  by (simp add: call_routine_def assms WriteSlot_scalar_blocks_def)

lemma call_string_blocks:
  assumes "blocks f = WriteSlot_string_blocks idx set_null_fn" and "len \<noteq> 0"
  shows "call_routine (Suc (Suc k)) rt f tuple_arg data len =
           Some (I1 True,
                 tuple_arg([idx, 0] := Ptr (DataPtr data), [idx, 1] := I32 len),
                 [Stored (TuplePtr [idx, 0]) (Ptr (DataPtr data)),
                  Stored (TuplePtr [idx, 1]) (I32 len)])"
  using assms(2) by (simp add: call_routine_def assms(1) WriteSlot_string_blocks_def)

lemma call_scalar_blocks:
  assumes "blocks f = WriteSlot_scalar_blocks idx parse_fn_enum set_null_fn PARSE_FAILURE"
    and "len \<noteq> 0"
  shows "call_routine (Suc (Suc (Suc k))) rt f tuple_arg data len =
           (case string_to rt parse_fn_enum data len of
              (result, parse_result) \<Rightarrow>
                if parse_result = word_of_int PARSE_FAILURE then
                  Some (I1 False, update_null rt set_null_fn tuple_arg,
                        [Called (IrFn parse_fn_enum), Called (Fn set_null_fn)])
                else
                  Some (I1 True, tuple_arg([idx] := result),
                        [Called (IrFn parse_fn_enum), Stored (TuplePtr [idx]) result]))"
  using assms(2)
  by (simp add: call_routine_def assms(1) WriteSlot_scalar_blocks_def split: prod.splits)

subsection \<open>The claims about the generator\<close>

text \<open>
  C1. For every generated routine of a scalar (non-string) slot and every non-empty field,
  the slot type is one of the seven supported scalar types and the routine calls the parser
  of that type: \<open>STRING_TO_BOOL\<close> for a boolean slot, \<open>STRING_TO_INT8\<close>, \<open>STRING_TO_INT16\<close>,
  \<open>STRING_TO_INT32\<close> and \<open>STRING_TO_INT64\<close> for the four integer widths, \<open>STRING_TO_FLOAT\<close>
  and \<open>STRING_TO_DOUBLE\<close> for the two float widths. If the status the parser reports is
  not \<open>PARSE_FAILURE\<close>, the routine stores the parsed value into the slot and returns
  true. If it is \<open>PARSE_FAILURE\<close>, the routine calls the null-marking function and returns
  false; it stores nothing, so the tuple is changed by the null-marking function alone.
  Three blocks are entered.
\<close>

theorem WriteSlot_scalar_field:
  assumes "CodegenWriteSlot escape_char PARSE_FAILURE codegen tuple_desc slot_desc = (logs, Some f)"
    and "type slot_desc \<noteq> TYPE_STRING"
    and "len \<noteq> 0"
    and "3 \<le> fuel"
  shows "\<exists>parse_fn_enum tuple_type set_null_fn.
           (type slot_desc, parse_fn_enum) \<in>
             {(TYPE_BOOLEAN, STRING_TO_BOOL), (TYPE_TINYINT, STRING_TO_INT8),
              (TYPE_SMALLINT, STRING_TO_INT16), (TYPE_INT, STRING_TO_INT32),
              (TYPE_BIGINT, STRING_TO_INT64), (TYPE_FLOAT, STRING_TO_FLOAT),
              (TYPE_DOUBLE, STRING_TO_DOUBLE)}
         \<and> GenerateLlvmStruct tuple_desc = Some tuple_type
         \<and> CodegenUpdateNull slot_desc tuple_type True = Some set_null_fn
         \<and> call_routine fuel rt f tuple_arg data len =
             (case string_to rt parse_fn_enum data len of
                (result, parse_result) \<Rightarrow>
                  if parse_result = word_of_int PARSE_FAILURE then
                    Some (I1 False, update_null rt set_null_fn tuple_arg,
                          [Called (IrFn parse_fn_enum), Called (Fn set_null_fn)])
                  else
                    Some (I1 True, tuple_arg([field_idx slot_desc] := result),
                          [Called (IrFn parse_fn_enum),
                           Stored (TuplePtr [field_idx slot_desc]) result]))"
proof -
  from fuel3 [OF assms(4)] obtain k where k: "fuel = Suc (Suc (Suc k))" ..
  from CodegenWriteSlot_scalar [OF assms(1,2)] obtain parse_fn_enum tuple_type set_null_fn where
    p: "parse_fn_enum_of (type slot_desc) = Some parse_fn_enum"
    and e: "GenerateLlvmStruct tuple_desc = Some tuple_type"
       "CodegenUpdateNull slot_desc tuple_type True = Some set_null_fn"
    and b: "blocks f =
       WriteSlot_scalar_blocks (field_idx slot_desc) parse_fn_enum set_null_fn PARSE_FAILURE"
    by blast
  from p have t: "(type slot_desc, parse_fn_enum) \<in>
             {(TYPE_BOOLEAN, STRING_TO_BOOL), (TYPE_TINYINT, STRING_TO_INT8),
              (TYPE_SMALLINT, STRING_TO_INT16), (TYPE_INT, STRING_TO_INT32),
              (TYPE_BIGINT, STRING_TO_INT64), (TYPE_FLOAT, STRING_TO_FLOAT),
              (TYPE_DOUBLE, STRING_TO_DOUBLE)}"
    by (simp only: parse_fn_enum_of_table)
  from t e call_scalar_blocks [OF b assms(3), of k rt tuple_arg data] show ?thesis
    unfolding k by blast
qed

text \<open>
  An integer slot and a double slot, with parsers that all give a different value: the
  value stored, and the call recorded, are those of the parser of the slot type. For the
  integer slot a field of length 3 parses and one of length 2 does not.
\<close>

theorem WriteSlot_scalar_field_witness:
  "(\<exists>f. CodegenWriteSlot 0 1 \<lparr>VerifyFunction = \<lambda>f. True\<rparr> \<lparr>GenerateLlvmStruct = Some ()\<rparr>
          \<lparr>type = TYPE_INT, field_idx = 1, CodegenUpdateNull = \<lambda>t b. Some ''SetNull''\<rparr>
        = ([], Some f)
     \<and> call_routine 3
          \<lparr>update_null = \<lambda>n t. t([0] := I8 1),
           string_to = \<lambda>p d l. if p = STRING_TO_INT32 \<and> l = 3 then (I32 123, 0)
                                 else if p = STRING_TO_DOUBLE then (F64 5, 0) else (I32 0, 1)\<rparr>
          f (\<lambda>p. I8 0) 4096 3
        = Some (I1 True, (\<lambda>p. I8 0)([1] := I32 123),
                [Called (IrFn STRING_TO_INT32), Stored (TuplePtr [1]) (I32 123)])
     \<and> call_routine 3
          \<lparr>update_null = \<lambda>n t. t([0] := I8 1),
           string_to = \<lambda>p d l. if p = STRING_TO_INT32 \<and> l = 3 then (I32 123, 0)
                                 else if p = STRING_TO_DOUBLE then (F64 5, 0) else (I32 0, 1)\<rparr>
          f (\<lambda>p. I8 0) 4096 2
        = Some (I1 False, (\<lambda>p. I8 0)([0] := I8 1),
                [Called (IrFn STRING_TO_INT32), Called (Fn ''SetNull'')]))
   \<and> (\<exists>f. CodegenWriteSlot 0 1 \<lparr>VerifyFunction = \<lambda>f. True\<rparr> \<lparr>GenerateLlvmStruct = Some ()\<rparr>
          \<lparr>type = TYPE_DOUBLE, field_idx = 2, CodegenUpdateNull = \<lambda>t b. Some ''SetNull''\<rparr>
        = ([], Some f)
     \<and> call_routine 3
          \<lparr>update_null = \<lambda>n t. t([0] := I8 1),
           string_to = \<lambda>p d l. if p = STRING_TO_INT32 \<and> l = 3 then (I32 123, 0)
                                 else if p = STRING_TO_DOUBLE then (F64 5, 0) else (I32 0, 1)\<rparr>
          f (\<lambda>p. I8 0) 4096 3
        = Some (I1 True, (\<lambda>p. I8 0)([2] := F64 5),
                [Called (IrFn STRING_TO_DOUBLE), Stored (TuplePtr [2]) (F64 5)]))"
proof -
  let ?si = "\<lparr>type = TYPE_INT, field_idx = 1,
              CodegenUpdateNull = \<lambda>(t::unit) (b::bool). Some ''SetNull''\<rparr>"
  let ?sd = "\<lparr>type = TYPE_DOUBLE, field_idx = 2,
              CodegenUpdateNull = \<lambda>(t::unit) (b::bool). Some ''SetNull''\<rparr>"
  let ?rt = "\<lparr>update_null = \<lambda>(n::string) (t::tuple_mem). t([0] := I8 1),
             string_to = \<lambda>(p::IRFunction) (d::64 word) (l::32 word).
                           if p = STRING_TO_INT32 \<and> l = 3 then (I32 123, 0 :: 32 word)
                           else if p = STRING_TO_DOUBLE then (F64 5, 0) else (I32 0, 1)\<rparr>"
  obtain f where gen:
    "CodegenWriteSlot 0 1 \<lparr>VerifyFunction = \<lambda>f. True\<rparr> \<lparr>GenerateLlvmStruct = Some ()\<rparr> ?si
       = ([], Some f)"
    by (simp add: CodegenWriteSlot_def FinalizeFunction_def Let_def)
  obtain g where gen_d:
    "CodegenWriteSlot 0 1 \<lparr>VerifyFunction = \<lambda>f. True\<rparr> \<lparr>GenerateLlvmStruct = Some ()\<rparr> ?sd
       = ([], Some g)"
    by (simp add: CodegenWriteSlot_def FinalizeFunction_def Let_def)
  have scalar: "type ?si \<noteq> TYPE_STRING" and scalar_d: "type ?sd \<noteq> TYPE_STRING" by simp_all
  have fuel: "(3::nat) \<le> 3" by simp
  have l3: "(3 :: 32 word) \<noteq> 0" and l2: "(2 :: 32 word) \<noteq> 0" by simp_all
  from WriteSlot_scalar_field [OF gen scalar l3 fuel, of ?rt "\<lambda>p. I8 0" 4096]
       WriteSlot_scalar_field [OF gen scalar l2 fuel, of ?rt "\<lambda>p. I8 0" 4096]
       gen
  have int_slot: "\<exists>f. CodegenWriteSlot 0 1 \<lparr>VerifyFunction = \<lambda>f. True\<rparr>
          \<lparr>GenerateLlvmStruct = Some ()\<rparr> ?si = ([], Some f)
     \<and> call_routine 3 ?rt f (\<lambda>p. I8 0) 4096 3
        = Some (I1 True, (\<lambda>p. I8 0)([1] := I32 123),
                [Called (IrFn STRING_TO_INT32), Stored (TuplePtr [1]) (I32 123)])
     \<and> call_routine 3 ?rt f (\<lambda>p. I8 0) 4096 2
        = Some (I1 False, (\<lambda>p. I8 0)([0] := I8 1),
                [Called (IrFn STRING_TO_INT32), Called (Fn ''SetNull'')])"
    by auto
  from WriteSlot_scalar_field [OF gen_d scalar_d l3 fuel, of ?rt "\<lambda>p. I8 0" 4096] gen_d
  have double_slot: "\<exists>f. CodegenWriteSlot 0 1 \<lparr>VerifyFunction = \<lambda>f. True\<rparr>
          \<lparr>GenerateLlvmStruct = Some ()\<rparr> ?sd = ([], Some f)
     \<and> call_routine 3 ?rt f (\<lambda>p. I8 0) 4096 3
        = Some (I1 True, (\<lambda>p. I8 0)([2] := F64 5),
                [Called (IrFn STRING_TO_DOUBLE), Stored (TuplePtr [2]) (F64 5)])"
    by auto
  from int_slot double_slot show ?thesis by (rule conjI)
qed

text \<open>
  C2. For every generated routine, of a string slot or of a scalar one, a call with field
  length 0 calls the null-marking function and returns true; it calls no parser and stores
  nothing.
\<close>

theorem WriteSlot_empty_field:
  assumes "CodegenWriteSlot escape_char PARSE_FAILURE codegen tuple_desc slot_desc = (logs, Some f)"
    and "2 \<le> fuel"
  shows "\<exists>tuple_type set_null_fn.
           GenerateLlvmStruct tuple_desc = Some tuple_type
         \<and> CodegenUpdateNull slot_desc tuple_type True = Some set_null_fn
         \<and> call_routine fuel rt f tuple_arg data 0 =
             Some (I1 True, update_null rt set_null_fn tuple_arg, [Called (Fn set_null_fn)])"
proof -
  from fuel2 [OF assms(2)] obtain k where k: "fuel = Suc (Suc k)" ..
  show ?thesis
  proof (cases "type slot_desc = TYPE_STRING")
    case True
    from CodegenWriteSlot_string [OF assms(1) True] obtain tuple_type set_null_fn where
      e: "GenerateLlvmStruct tuple_desc = Some tuple_type"
         "CodegenUpdateNull slot_desc tuple_type True = Some set_null_fn"
      and b: "blocks f = WriteSlot_string_blocks (field_idx slot_desc) set_null_fn"
      by blast
    from e call_string_blocks_empty [OF b, of k rt tuple_arg data] show ?thesis
      unfolding k by blast
  next
    case False
    from CodegenWriteSlot_scalar [OF assms(1) False] obtain parse_fn_enum tuple_type set_null_fn
      where e: "GenerateLlvmStruct tuple_desc = Some tuple_type"
         "CodegenUpdateNull slot_desc tuple_type True = Some set_null_fn"
      and b: "blocks f =
         WriteSlot_scalar_blocks (field_idx slot_desc) parse_fn_enum set_null_fn PARSE_FAILURE"
      by blast
    from e call_scalar_blocks_empty [OF b, of k rt tuple_arg data] show ?thesis
      unfolding k by blast
  qed
qed

theorem WriteSlot_empty_field_witness:
  "\<exists>f. CodegenWriteSlot 0 1 \<lparr>VerifyFunction = \<lambda>f. True\<rparr> \<lparr>GenerateLlvmStruct = Some ()\<rparr>
          \<lparr>type = TYPE_STRING, field_idx = 1, CodegenUpdateNull = \<lambda>t b. Some ''SetNull''\<rparr>
        = ([], Some f)
     \<and> call_routine 2
          \<lparr>update_null = \<lambda>n t. t([0] := I8 1), string_to = \<lambda>p d l. (I32 0, 1)\<rparr>
          f (\<lambda>p. I8 0) 4096 0
        = Some (I1 True, (\<lambda>p. I8 0)([0] := I8 1), [Called (Fn ''SetNull'')])"
proof -
  let ?sd = "\<lparr>type = TYPE_STRING, field_idx = 1,
              CodegenUpdateNull = \<lambda>(t::unit) (b::bool). Some ''SetNull''\<rparr>"
  let ?rt = "\<lparr>update_null = \<lambda>(n::string) (t::tuple_mem). t([0] := I8 1),
             string_to = \<lambda>(p::IRFunction) (d::64 word) (l::32 word). (I32 0, 1 :: 32 word)\<rparr>"
  obtain f where gen:
    "CodegenWriteSlot 0 1 \<lparr>VerifyFunction = \<lambda>f. True\<rparr> \<lparr>GenerateLlvmStruct = Some ()\<rparr> ?sd
       = ([], Some f)"
    by (simp add: CodegenWriteSlot_def FinalizeFunction_def Let_def)
  have fuel: "(2::nat) \<le> 2" by simp
  from WriteSlot_empty_field [OF gen fuel, of ?rt "\<lambda>p. I8 0" 4096] gen
  show ?thesis by auto
qed

text \<open>
  C3. For every routine generated for a string slot with no escaping configured (escape
  byte 0) and every non-empty field, the routine stores the field pointer into the first
  element of the slot and the field length into the second, both as they were passed, does
  nothing else and returns true.
\<close>

theorem WriteSlot_string_field:
  assumes "CodegenWriteSlot 0 PARSE_FAILURE codegen tuple_desc slot_desc = (logs, Some f)"
    and "type slot_desc = TYPE_STRING"
    and "len \<noteq> 0"
    and "2 \<le> fuel"
  shows "call_routine fuel rt f tuple_arg data len =
           Some (I1 True,
                 tuple_arg([field_idx slot_desc, 0] := Ptr (DataPtr data),
                           [field_idx slot_desc, 1] := I32 len),
                 [Stored (TuplePtr [field_idx slot_desc, 0]) (Ptr (DataPtr data)),
                  Stored (TuplePtr [field_idx slot_desc, 1]) (I32 len)])"
proof -
  from fuel2 [OF assms(4)] obtain k where k: "fuel = Suc (Suc k)" ..
  from CodegenWriteSlot_string [OF assms(1,2)] obtain set_null_fn where
    b: "blocks f = WriteSlot_string_blocks (field_idx slot_desc) set_null_fn"
    by blast
  from call_string_blocks [OF b assms(3), of k rt tuple_arg data] show ?thesis
    unfolding k .
qed

theorem WriteSlot_string_field_witness:
  "\<exists>f. CodegenWriteSlot 0 1 \<lparr>VerifyFunction = \<lambda>f. True\<rparr> \<lparr>GenerateLlvmStruct = Some ()\<rparr>
          \<lparr>type = TYPE_STRING, field_idx = 1, CodegenUpdateNull = \<lambda>t b. Some ''SetNull''\<rparr>
        = ([], Some f)
     \<and> call_routine 2
          \<lparr>update_null = \<lambda>n t. t([0] := I8 1), string_to = \<lambda>p d l. (I32 0, 1)\<rparr>
          f (\<lambda>p. I8 0) 4096 5
        = Some (I1 True, (\<lambda>p. I8 0)([1, 0] := Ptr (DataPtr 4096), [1, 1] := I32 5),
                [Stored (TuplePtr [1, 0]) (Ptr (DataPtr 4096)), Stored (TuplePtr [1, 1]) (I32 5)])"
proof -
  let ?sd = "\<lparr>type = TYPE_STRING, field_idx = 1,
              CodegenUpdateNull = \<lambda>(t::unit) (b::bool). Some ''SetNull''\<rparr>"
  let ?rt = "\<lparr>update_null = \<lambda>(n::string) (t::tuple_mem). t([0] := I8 1),
             string_to = \<lambda>(p::IRFunction) (d::64 word) (l::32 word). (I32 0, 1 :: 32 word)\<rparr>"
  obtain f where gen:
    "CodegenWriteSlot 0 1 \<lparr>VerifyFunction = \<lambda>f. True\<rparr> \<lparr>GenerateLlvmStruct = Some ()\<rparr> ?sd
       = ([], Some f)"
    by (simp add: CodegenWriteSlot_def FinalizeFunction_def Let_def)
  have str: "type ?sd = TYPE_STRING" by simp
  have fuel: "(2::nat) \<le> 2" by simp
  have l5: "(5 :: 32 word) \<noteq> 0" by simp
  from WriteSlot_string_field [OF gen str l5 fuel, of ?rt "\<lambda>p. I8 0" 4096] gen
  show ?thesis by auto
qed

text \<open>
  C4. For every string slot, if an escape byte is configured (one other than 0), generation
  returns no function, and says so in a warning.
\<close>

theorem CodegenWriteSlot_refuses_escaped_string:
  assumes "type slot_desc = TYPE_STRING" and "escape_char \<noteq> 0"
  shows "CodegenWriteSlot escape_char PARSE_FAILURE codegen tuple_desc slot_desc =
           ([(WARNING,
              ''Could not codegen WriteSlot because escape characters are not yet supported.'')],
            None)"
  using assms by (simp add: CodegenWriteSlot_def)

theorem CodegenWriteSlot_refuses_escaped_string_witness:
  "type \<lparr>type = TYPE_STRING, field_idx = 1, CodegenUpdateNull = \<lambda>(t::unit) b. Some ''SetNull''\<rparr>
     = TYPE_STRING
   \<and> (92 :: byte) \<noteq> 0
   \<and> CodegenWriteSlot 92 1 \<lparr>VerifyFunction = \<lambda>f. True\<rparr> \<lparr>GenerateLlvmStruct = Some ()\<rparr>
        \<lparr>type = TYPE_STRING, field_idx = 1, CodegenUpdateNull = \<lambda>t b. Some ''SetNull''\<rparr>
      = ([(WARNING,
           ''Could not codegen WriteSlot because escape characters are not yet supported.'')],
         None)"
proof -
  let ?sd = "\<lparr>type = TYPE_STRING, field_idx = 1,
              CodegenUpdateNull = \<lambda>(t::unit) (b::bool). Some ''SetNull''\<rparr>"
  have str: "type ?sd = TYPE_STRING" by simp
  have esc: "(92 :: byte) \<noteq> 0" by simp
  from CodegenWriteSlot_refuses_escaped_string
         [OF str esc, of 1 "\<lparr>VerifyFunction = \<lambda>f. True\<rparr>" "\<lparr>GenerateLlvmStruct = Some ()\<rparr>"]
       str esc
  show ?thesis by simp
qed

end
